theory Spec2Isabelle
  imports Main "HOL-Library.Word" "HOL-Library.Stream"
begin

unbundle bit_operations_syntax

section \<open>Machine types and protocol constants\<close>

text \<open>
  The driver is C for the Linux kernel. \<open>u8\<close> and \<open>u32\<close> are the kernel's fixed-width
  types; a C \<open>int\<close> is a 32-bit word read as two's complement (\<open>sint\<close>, \<open><s\<close>);
  \<open>unsigned long\<close>, \<open>size_t\<close> and \<open>loff_t\<close> are 64-bit words (an LP64 kernel).
\<close>

type_synonym u8 = "8 word"
type_synonym u32 = "32 word"
type_synonym c_int = "32 word"
type_synonym c_ulong = "64 word"

definition MATRIXORBITAL_POLL_KEY_PRESS :: u8 where
  "MATRIXORBITAL_POLL_KEY_PRESS = 0x26"

definition MATRIXORBITAL_READ_MODULE_TYPE :: u8 where
  "MATRIXORBITAL_READ_MODULE_TYPE = 0x37"

definition MATRIXORBITAL_AUTO_TX_KEY_PRESS_OFF :: u8 where
  "MATRIXORBITAL_AUTO_TX_KEY_PRESS_OFF = 0x4F"

definition MATRIXORBITAL_CLEAR_SCREEN :: u8 where
  "MATRIXORBITAL_CLEAR_SCREEN = 0x58"

definition MATRIXORBITAL_DRAW_BITMAP_DIRECTLY :: u8 where
  "MATRIXORBITAL_DRAW_BITMAP_DIRECTLY = 0x64"

definition MATRIXORBITAL_TX_PROTOCOL_SELECT :: u8 where
  "MATRIXORBITAL_TX_PROTOCOL_SELECT = 0xA0"

text \<open>
  The key codes \<open>KEY_ESC\<close>, \<open>KEY_UP\<close>, ... come from a kernel header that is not part
  of the driver. The driver stores them in a \<open>u8\<close>; the model takes them as a parameter.
\<close>

record keycodes =
  KEY_ESC :: u8
  KEY_UP :: u8
  KEY_RIGHT :: u8
  KEY_LEFT :: u8
  KEY_ENTER :: u8
  KEY_BACKSPACE :: u8
  KEY_DOWN :: u8

section \<open>The driver state and its environment\<close>

text \<open>
  What the driver does to the outside is recorded in three logs: the I2C bus
  (\<open>wire\<close>), the kernel log written by \<open>dev_err\<close> (\<open>klog\<close>) and the calls into the
  input core (\<open>input_log\<close>).
\<close>

datatype bus_event =
    I2C_send "u8 list"
  | Msleep nat
  | I2C_recv nat

datatype diag =
    Send_failed
  | Module_type c_int
  | Unknown_keycode u32
  | Report_key_msg u8 u32

datatype input_call =
    Input_report_key u8 c_int
  | Input_sync

datatype errno = EINVAL | EFAULT

text \<open>
  \<open>width\<close>, \<open>height\<close> are the fields of \<open>struct matrixorbital_par\<close>; \<open>screen_base\<close>
  and \<open>smem_len\<close> are \<open>info->screen_base\<close> and \<open>info->fix.smem_len\<close>. The three
  streams are the environment: what the successive calls of \<open>i2c_master_send\<close>,
  \<open>i2c_master_recv\<close> (return value, and the byte it stores) and \<open>kzalloc\<close> (whether it
  returns memory) will answer.
\<close>

record world =
  width :: u32
  height :: u32
  screen_base :: "u8 list"
  smem_len :: u32
  i2c_send_rets :: "c_int stream"
  i2c_recv_rets :: "(c_int \<times> u8) stream"
  kzalloc_rets :: "bool stream"
  wire :: "bus_event list"
  klog :: "diag list"
  input_log :: "input_call list"

subsection \<open>Kernel services the driver calls\<close>

definition i2c_master_send :: "u8 list \<Rightarrow> u32 \<Rightarrow> world \<Rightarrow> c_int \<times> world" where
  "i2c_master_send buf len w =
     (shd (i2c_send_rets w),
      w\<lparr>i2c_send_rets := stl (i2c_send_rets w),
        wire := wire w @ [I2C_send (take (unat len) buf)]\<rparr>)"

definition i2c_master_recv :: "nat \<Rightarrow> world \<Rightarrow> (c_int \<times> u8) \<times> world" where
  "i2c_master_recv count w =
     (shd (i2c_recv_rets w),
      w\<lparr>i2c_recv_rets := stl (i2c_recv_rets w),
        wire := wire w @ [I2C_recv count]\<rparr>)"

definition msleep :: "nat \<Rightarrow> world \<Rightarrow> world" where
  "msleep ms w = w\<lparr>wire := wire w @ [Msleep ms]\<rparr>"

definition dev_err :: "diag \<Rightarrow> world \<Rightarrow> world" where
  "dev_err d w = w\<lparr>klog := klog w @ [d]\<rparr>"

definition kzalloc :: "world \<Rightarrow> bool \<times> world" where
  "kzalloc w = (shd (kzalloc_rets w), w\<lparr>kzalloc_rets := stl (kzalloc_rets w)\<rparr>)"

definition input_report_key :: "u8 \<Rightarrow> c_int \<Rightarrow> world \<Rightarrow> world" where
  "input_report_key code v w = w\<lparr>input_log := input_log w @ [Input_report_key code v]\<rparr>"

definition input_sync :: "world \<Rightarrow> world" where
  "input_sync w = w\<lparr>input_log := input_log w @ [Input_sync]\<rparr>"

section \<open>The command channel\<close>

text \<open>
  \<open>ret != len\<close> compares an \<open>int\<close> with a \<open>u32\<close>: C converts \<open>ret\<close> to unsigned, so
  the comparison is the one of 32-bit words.
\<close>

definition matrixorbital_write_array :: "u8 list \<Rightarrow> u32 \<Rightarrow> world \<Rightarrow> c_int \<times> world" where
  "matrixorbital_write_array buf len w =
     (case i2c_master_send buf len w of
        (ret, w1) \<Rightarrow>
          if ret \<noteq> len then (- 1, dev_err Send_failed w1) else (0, w1))"

definition matrixorbital_write_cmd :: "u8 \<Rightarrow> world \<Rightarrow> c_int \<times> world" where
  "matrixorbital_write_cmd cmd w = matrixorbital_write_array [0xFE, cmd] 2 w"

definition matrixorbital_write_param :: "u8 \<Rightarrow> u8 \<Rightarrow> world \<Rightarrow> c_int \<times> world" where
  "matrixorbital_write_param cmd val w = matrixorbital_write_array [0xFE, cmd, val] 3 w"

definition matrixorbital_read_param :: "u8 \<Rightarrow> world \<Rightarrow> c_int \<times> world" where
  "matrixorbital_read_param cmd w =
     (case matrixorbital_write_cmd cmd w of
        (_, w1) \<Rightarrow>
          (case i2c_master_recv 1 (msleep 5 w1) of
             ((ret, data), w2) \<Rightarrow> (if ret = 1 then ucast data else ret, w2)))"

section \<open>The bitmap encoder\<close>

text \<open>
  The three assignments of \<open>reverse_bits_in_byte\<close>. C computes each right-hand side in
  \<open>int\<close> and truncates it to \<open>unsigned char\<close>; the masks keep every shifted value below
  256, so the 8-bit shifts give the same bytes.
\<close>

definition reverse_bits_in_byte :: "u8 \<Rightarrow> u8" where
  "reverse_bits_in_byte b0 =
     (let b1 = drop_bit 4 (b0 AND 0xF0) OR push_bit 4 (b0 AND 0x0F);
          b2 = drop_bit 2 (b1 AND 0xCC) OR push_bit 2 (b1 AND 0x33);
          b3 = drop_bit 1 (b2 AND 0xAA) OR push_bit 1 (b2 AND 0x55)
      in b3)"

text \<open>
  The \<open>for\<close> loop of \<open>matrixorbitalfb_update_display\<close>, from index \<open>i\<close> up to the bound
  \<open>n\<close>: \<open>data[i+6] = reverse_bits_in_byte(vmem[i])\<close>. The read \<open>vmem ! i\<close> is
  meaningful only inside the video memory; the theorems about frames assume that the
  memory has the \<open>n\<close> bytes the loop reads.
\<close>

function update_display_loop :: "u8 list \<Rightarrow> nat \<Rightarrow> nat \<Rightarrow> u8 list \<Rightarrow> u8 list" where
  "update_display_loop vmem i n data =
     (if i < n
      then update_display_loop vmem (Suc i) n (data[i + 6 := reverse_bits_in_byte (vmem ! i)])
      else data)"
  by pat_completeness auto
termination
  by (relation "measure (\<lambda>(vmem, i, n, data). n - i)") auto

declare update_display_loop.simps [simp del]

text \<open>
  The buffer \<open>data\<close> that \<open>matrixorbitalfb_update_display\<close> fills once \<open>kzalloc\<close> has
  returned \<open>len\<close> zero bytes: the six header bytes, then the loop.
\<close>

definition update_display_data :: "world \<Rightarrow> u8 list" where
  "update_display_data w =
     (let len = 6 + width w * height w div 8;
          data = replicate (unat len) 0;
          data = data[0 := 0xFE];
          data = data[1 := MATRIXORBITAL_DRAW_BITMAP_DIRECTLY];
          data = data[2 := 0];
          data = data[3 := 0];
          data = data[4 := ucast (width w)];
          data = data[5 := ucast (height w)]
      in update_display_loop (screen_base w) 0 (unat (height w * width w div 8)) data)"

definition matrixorbitalfb_update_display :: "world \<Rightarrow> world" where
  "matrixorbitalfb_update_display w =
     (case kzalloc w of
        (ok, w1) \<Rightarrow>
          if \<not> ok then w1
          else snd (matrixorbital_write_array (update_display_data w1)
                      (6 + width w1 * height w1 div 8) w1))"

section \<open>The framebuffer operations\<close>

text \<open>
  \<open>copy_from_user(dst, buf, n)\<close> is the kernel's: it copies \<open>n\<close> bytes from user space,
  and where the user memory ends early it fills the rest of the destination with zero
  bytes and returns how many bytes it could not copy. \<open>ubuf\<close> is what can be read at the
  user pointer; \<open>dst\<close> is the offset of the destination in the video memory.
\<close>

definition mem_store :: "u8 list \<Rightarrow> nat \<Rightarrow> u8 list \<Rightarrow> u8 list" where
  "mem_store mem off bytes = take off mem @ bytes @ drop (off + length bytes) mem"

definition copy_from_user :: "c_ulong \<Rightarrow> u8 list \<Rightarrow> c_ulong \<Rightarrow> world \<Rightarrow> c_ulong \<times> world" where
  "copy_from_user dst ubuf n w =
     (let got = take (unat n) ubuf;
          missing = unat n - length got
      in (of_nat missing,
          w\<lparr>screen_base := mem_store (screen_base w) (unat dst) (got @ replicate missing 0)\<rparr>))"

text \<open>
  \<open>matrixorbitalfb_write\<close> returns a \<open>ssize_t\<close>: \<open>-EINVAL\<close> and \<open>-EFAULT\<close> are \<open>Inl\<close>,
  the count written is \<open>Inr\<close>. The second component is \<open>*ppos\<close> after the call.
\<close>

definition matrixorbitalfb_write ::
  "u8 list \<Rightarrow> c_ulong \<Rightarrow> c_ulong \<Rightarrow> world \<Rightarrow> (errno + c_ulong) \<times> c_ulong \<times> world" where
  "matrixorbitalfb_write buf count ppos w =
     (let p = ppos;
          total_size = (ucast (smem_len w) :: c_ulong)
      in if p > total_size then (Inl EINVAL, ppos, w)
         else
           (let count = (if count + p > total_size then total_size - p else count)
            in if count = 0 then (Inl EINVAL, ppos, w)
               else
                 (case copy_from_user p buf count w of
                    (not_copied, w1) \<Rightarrow>
                      if not_copied \<noteq> 0 then (Inl EFAULT, ppos, w1)
                      else (Inr count, ppos + count, matrixorbitalfb_update_display w1))))"

definition matrixorbitalfb_blank :: "c_int \<Rightarrow> world \<Rightarrow> c_int" where
  "matrixorbitalfb_blank blank_mode w = 0"

text \<open>
  \<open>sys_fillrect\<close>, \<open>sys_copyarea\<close> and \<open>sys_imageblit\<close> are the kernel's drawing
  primitives. Applied to their rectangle, area or image they change the video memory;
  the model takes that change as a parameter.
\<close>

definition matrixorbitalfb_fillrect :: "(u8 list \<Rightarrow> u8 list) \<Rightarrow> world \<Rightarrow> world" where
  "matrixorbitalfb_fillrect sys_fillrect w =
     matrixorbitalfb_update_display (w\<lparr>screen_base := sys_fillrect (screen_base w)\<rparr>)"

definition matrixorbitalfb_copyarea :: "(u8 list \<Rightarrow> u8 list) \<Rightarrow> world \<Rightarrow> world" where
  "matrixorbitalfb_copyarea sys_copyarea w =
     matrixorbitalfb_update_display (w\<lparr>screen_base := sys_copyarea (screen_base w)\<rparr>)"

definition matrixorbitalfb_imageblit :: "(u8 list \<Rightarrow> u8 list) \<Rightarrow> world \<Rightarrow> world" where
  "matrixorbitalfb_imageblit sys_imageblit w =
     matrixorbitalfb_update_display (w\<lparr>screen_base := sys_imageblit (screen_base w)\<rparr>)"

definition matrixorbitalfb_deferred_io :: "world \<Rightarrow> world" where
  "matrixorbitalfb_deferred_io w = matrixorbitalfb_update_display w"

text \<open>
  A call through the operation table \<open>matrixorbitalfb_ops\<close>, and a sequence of such
  calls one after the other.
\<close>

datatype fb_call =
    Fb_write "u8 list" c_ulong c_ulong
  | Fb_fillrect "u8 list \<Rightarrow> u8 list"
  | Fb_copyarea "u8 list \<Rightarrow> u8 list"
  | Fb_imageblit "u8 list \<Rightarrow> u8 list"

fun matrixorbitalfb_ops :: "fb_call \<Rightarrow> world \<Rightarrow> world" where
  "matrixorbitalfb_ops (Fb_write buf count ppos) w = snd (snd (matrixorbitalfb_write buf count ppos w))"
| "matrixorbitalfb_ops (Fb_fillrect f) w = matrixorbitalfb_fillrect f w"
| "matrixorbitalfb_ops (Fb_copyarea f) w = matrixorbitalfb_copyarea f w"
| "matrixorbitalfb_ops (Fb_imageblit f) w = matrixorbitalfb_imageblit f w"

fun fb_calls :: "fb_call list \<Rightarrow> world \<Rightarrow> world" where
  "fb_calls [] w = w"
| "fb_calls (c # cs) w = fb_calls cs (matrixorbitalfb_ops c w)"

text \<open>The call reaches its flush: every call but a raw write that returns an error.\<close>

fun fb_call_flushes :: "fb_call \<Rightarrow> world \<Rightarrow> bool" where
  "fb_call_flushes (Fb_write buf count ppos) w =
     (case fst (matrixorbitalfb_write buf count ppos w) of Inl e \<Rightarrow> False | Inr n \<Rightarrow> True)"
| "fb_call_flushes _ w = True"

text \<open>The buffers handed to \<open>i2c_master_send\<close> so far, in order.\<close>

fun sent_frames :: "bus_event list \<Rightarrow> u8 list list" where
  "sent_frames [] = []"
| "sent_frames (I2C_send buf # es) = buf # sent_frames es"
| "sent_frames (_ # es) = sent_frames es"

fun recv_count :: "bus_event list \<Rightarrow> nat" where
  "recv_count [] = 0"
| "recv_count (I2C_recv n # es) = Suc (recv_count es)"
| "recv_count (_ # es) = recv_count es"

section \<open>Session bring-up\<close>

definition matrixorbital_init :: "world \<Rightarrow> c_int \<times> world" where
  "matrixorbital_init w =
     (case matrixorbital_write_param MATRIXORBITAL_TX_PROTOCOL_SELECT 0 w of
        (_, w1) \<Rightarrow>
     (case matrixorbital_read_param MATRIXORBITAL_READ_MODULE_TYPE w1 of
        (ret, w2) \<Rightarrow>
     (case matrixorbital_write_cmd MATRIXORBITAL_AUTO_TX_KEY_PRESS_OFF (dev_err (Module_type ret) w2) of
        (ret, w3) \<Rightarrow>
     (case matrixorbital_write_cmd MATRIXORBITAL_CLEAR_SCREEN w3 of
        (ret, w4) \<Rightarrow>
          if ret <s 0 then (ret, w4) else (0, w4)))))"

section \<open>The keypad\<close>

definition matrixorbital_report_key :: "keycodes \<Rightarrow> u32 \<Rightarrow> world \<Rightarrow> world" where
  "matrixorbital_report_key K matrixorbital_keycode w =
     (case (if matrixorbital_keycode = 0x41 then (KEY_ESC K, w)
            else if matrixorbital_keycode = 0x42 then (KEY_UP K, w)
            else if matrixorbital_keycode = 0x43 then (KEY_RIGHT K, w)
            else if matrixorbital_keycode = 0x44 then (KEY_LEFT K, w)
            else if matrixorbital_keycode = 0x45 then (KEY_ENTER K, w)
            else if matrixorbital_keycode = 0x47 then (KEY_BACKSPACE K, w)
            else if matrixorbital_keycode = 0x48 then (KEY_DOWN K, w)
            else (0, dev_err (Unknown_keycode matrixorbital_keycode) w)) of
        (keycode, w1) \<Rightarrow>
          input_sync (input_report_key keycode 0
            (input_sync (input_report_key keycode 1
              (dev_err (Report_key_msg keycode matrixorbital_keycode) w1)))))"

text \<open>
  The \<open>do ... while (ret & 0x80)\<close> loop. The device may answer with the continuation
  bit set for ever, so the loop need not return: \<open>None\<close> is the poll that never returns.
\<close>

partial_function (option) matrixorbital_keypad_poll :: "keycodes \<Rightarrow> world \<Rightarrow> world option" where
  "matrixorbital_keypad_poll K w =
     (case matrixorbital_read_param MATRIXORBITAL_POLL_KEY_PRESS w of
        (ret, w1) \<Rightarrow>
          if ret <s 0 then Some w1
          else if ret = 0 then Some w1
          else
            (let w2 = matrixorbital_report_key K (ret AND 0x7F) w1
             in if ret AND 0x80 \<noteq> 0 then matrixorbital_keypad_poll K w2 else Some w2))"

text \<open>
  What \<open>matrixorbital_read_param\<close> returns for an answer of \<open>i2c_master_recv\<close> (its
  return value and the byte it stored), and whether the poll stops once it has seen that
  result: a negative value, zero, or a code with the continuation bit clear.
\<close>

definition read_result :: "c_int \<times> u8 \<Rightarrow> c_int" where
  "read_result r = (if fst r = 1 then ucast (snd r) else fst r)"

definition ends_burst :: "c_int \<times> u8 \<Rightarrow> bool" where
  "ends_burst r \<longleftrightarrow> read_result r <s 0 \<or> read_result r = 0 \<or> read_result r AND 0x80 = 0"

section \<open>Example states\<close>

text \<open>
  The panel as \<open>matrixorbital_probe\<close> sets it up: 192 by 64 pixels, 1536 zeroed bytes of
  video memory. In this example every allocation succeeds, every send is acknowledged
  with two bytes and the device answers every read with one zero byte.
\<close>

definition blank_panel :: world where
  "blank_panel =
     \<lparr>width = 192, height = 64, screen_base = replicate 1536 0, smem_len = 1536,
      i2c_send_rets = sconst 2, i2c_recv_rets = sconst (1, 0), kzalloc_rets = sconst True,
      wire = [], klog = [], input_log = []\<rparr>"

text \<open>The key codes of the kernel's header, for the examples.\<close>

definition linux_keycodes :: keycodes where
  "linux_keycodes =
     \<lparr>KEY_ESC = 1, KEY_UP = 103, KEY_RIGHT = 106, KEY_LEFT = 105, KEY_ENTER = 28,
      KEY_BACKSPACE = 14, KEY_DOWN = 108\<rparr>"

text \<open>A drawing primitive for the examples: it sets the first byte of the memory.\<close>

definition set_first_byte :: "u8 list \<Rightarrow> u8 list" where
  "set_first_byte mem = mem[0 := 0xFF]"

section \<open>Properties of the bitmap encoder\<close>

lemma swap_stage_bit:
  fixes x :: u8
  shows "bit (drop_bit k (x AND m) OR push_bit k (x AND m')) n \<longleftrightarrow>
    (bit x (k + n) \<and> bit m (k + n)) \<or>
    (k \<le> n \<and> n < 8 \<and> bit x (n - k) \<and> bit m' (n - k))"
  by (auto simp add: bit_simps)

lemma bit_reverse_bits_in_byte:
  "bit (reverse_bits_in_byte b) n \<longleftrightarrow> n < 8 \<and> bit b (7 - n)"
proof (cases "n < 8")
  case False
  have "\<not> bit (reverse_bits_in_byte b) n"
    using False bit_imp_le_length [of "reverse_bits_in_byte b" n] by auto
  with False show ?thesis by simp
next
  case True
  then consider "n = 0" | "n = 1" | "n = 2" | "n = 3" | "n = 4" | "n = 5" | "n = 6" | "n = 7"
    by arith
  then show ?thesis
    unfolding reverse_bits_in_byte_def Let_def swap_stage_bit
    by cases simp_all
qed

text \<open>
  C7. Reversing the bits of a byte twice gives the byte back, for every byte, where the
  reversal is the driver's three swaps (nibbles, 2-bit groups, adjacent bits).
\<close>

theorem reverse_bits_in_byte_involution:
  "reverse_bits_in_byte (reverse_bits_in_byte b) = b"
  by (rule bit_word_eqI) (auto simp add: bit_reverse_bits_in_byte)

text \<open>
  X2. The three swaps of \<open>reverse_bits_in_byte\<close> reverse the bit order of the byte: bit
  \<open>n\<close> of the result is bit \<open>7 - n\<close> of the argument.
\<close>

theorem reverse_bits_in_byte_reverses:
  "bit (reverse_bits_in_byte b) n \<longleftrightarrow> n < 8 \<and> bit b (7 - n)"
  by (rule bit_reverse_bits_in_byte)

lemma take_Suc_update: "k < length xs \<Longrightarrow> take (Suc k) (xs[k := x]) = take k xs @ [x]"
  by (simp add: take_Suc_conv_app_nth)

lemma update_display_loop_eq:
  "i \<le> n \<Longrightarrow> n \<le> length vmem \<Longrightarrow> length data = n + 6 \<Longrightarrow>
   update_display_loop vmem i n data =
     take (i + 6) data @ map reverse_bits_in_byte (drop i (take n vmem))"
proof (induction vmem i n data rule: update_display_loop.induct)
  case (1 vmem i n data)
  show ?case
  proof (cases "i < n")
    case True
    let ?d = "data[i + 6 := reverse_bits_in_byte (vmem ! i)]"
    have step: "update_display_loop vmem i n data = update_display_loop vmem (Suc i) n ?d"
      using True by (subst update_display_loop.simps) simp
    have ih: "update_display_loop vmem (Suc i) n ?d =
        take (Suc i + 6) ?d @ map reverse_bits_in_byte (drop (Suc i) (take n vmem))"
      using True "1.prems" by (intro "1.IH") simp_all
    have hd: "take (Suc i + 6) ?d = take (i + 6) data @ [reverse_bits_in_byte (vmem ! i)]"
      using True "1.prems" take_Suc_update [of "i + 6" data] by simp
    have tl: "drop i (take n vmem) = vmem ! i # drop (Suc i) (take n vmem)"
      using True "1.prems" by (simp add: Cons_nth_drop_Suc [symmetric])
    show ?thesis
      by (simp only: step ih hd tl) simp
  next
    case False
    with "1.prems" have "i = n" by simp
    then show ?thesis
      using "1.prems" by (subst update_display_loop.simps) simp
  qed
qed

lemma take6_header:
  assumes "6 \<le> length xs"
  shows "take 6 (xs[0 := a, 1 := b, 2 := c, 3 := d, 4 := e, 5 := f]) = [a, b, c, d, e, f]"
proof (rule nth_equalityI)
  show "length (take 6 (xs[0 := a, 1 := b, 2 := c, 3 := d, 4 := e, 5 := f])) = length [a, b, c, d, e, f]"
    using assms by simp
next
  fix i assume "i < length (take 6 (xs[0 := a, 1 := b, 2 := c, 3 := d, 4 := e, 5 := f]))"
  then have "i < 6" by simp
  then consider "i = 0" | "i = 1" | "i = 2" | "i = 3" | "i = 4" | "i = 5" by arith
  moreover have "xs \<noteq> []" using assms by auto
  ultimately show "take 6 (xs[0 := a, 1 := b, 2 := c, 3 := d, 4 := e, 5 := f]) ! i = [a, b, c, d, e, f] ! i"
    using assms by cases (simp_all add: nth_list_update)
qed

lemma unat_frame_len:
  fixes x :: u32
  shows "unat (6 + x div 8) = unat (x div 8) + 6"
proof -
  have "unat (x div 8) \<le> unat x div 8" by (simp add: unat_div)
  moreover have "unat x < 2 ^ 32" using unsigned_less [of x] by simp
  ultimately have "unat (6 :: u32) + unat (x div 8) < 2 ^ LENGTH(32)" by simp
  then show ?thesis by (simp add: unat_add_lem [THEN iffD1])
qed

lemma update_display_data_eq:
  assumes "unat (height w * width w div 8) \<le> length (screen_base w)"
  shows "update_display_data w =
     [0xFE, 0x64, 0, 0, ucast (width w), ucast (height w)] @
     map reverse_bits_in_byte (take (unat (height w * width w div 8)) (screen_base w))"
proof -
  let ?n = "unat (height w * width w div 8)"
  let ?z = "replicate (unat (6 + width w * height w div 8)) (0 :: u8)"
  let ?h = "?z[0 := 0xFE, 1 := MATRIXORBITAL_DRAW_BITMAP_DIRECTLY, 2 := 0, 3 := 0,
               4 := ucast (width w), 5 := ucast (height w)]"
  have len: "length ?h = ?n + 6"
    by (simp add: unat_frame_len mult.commute)
  have "update_display_data w = update_display_loop (screen_base w) 0 ?n ?h"
    by (simp add: update_display_data_def Let_def)
  also have "\<dots> = take (0 + 6) ?h @ map reverse_bits_in_byte (drop 0 (take ?n (screen_base w)))"
    using assms len by (intro update_display_loop_eq) simp_all
  also have "take (0 + 6) ?h = [0xFE, 0x64, 0, 0, ucast (width w), ucast (height w)]"
    using len take6_header [of ?z] by (simp add: MATRIXORBITAL_DRAW_BITMAP_DIRECTLY_def)
  finally show ?thesis by simp
qed


lemma update_display_data_cong:
  "width w' = width w \<Longrightarrow> height w' = height w \<Longrightarrow> screen_base w' = screen_base w \<Longrightarrow>
   update_display_data w' = update_display_data w"
  by (simp add: update_display_data_def)

lemma length_update_display_loop:
  "length (update_display_loop vmem i n data) = length data"
proof (induction vmem i n data rule: update_display_loop.induct)
  case (1 vmem i n data)
  show ?case
  proof (cases "i < n")
    case True
    then show ?thesis
      using "1.IH" by (subst update_display_loop.simps) simp
  next
    case False
    then show ?thesis
      by (subst update_display_loop.simps) simp
  qed
qed

lemma length_update_display_data:
  "length (update_display_data w) = unat (6 + width w * height w div 8)"
  by (simp add: update_display_data_def Let_def length_update_display_loop)

lemma update_display_fields:
  "screen_base (matrixorbitalfb_update_display w) = screen_base w"
  "smem_len (matrixorbitalfb_update_display w) = smem_len w"
  "width (matrixorbitalfb_update_display w) = width w"
  "height (matrixorbitalfb_update_display w) = height w"
  "kzalloc_rets (matrixorbitalfb_update_display w) = stl (kzalloc_rets w)"
  "input_log (matrixorbitalfb_update_display w) = input_log w"
  by (simp_all add: matrixorbitalfb_update_display_def kzalloc_def matrixorbital_write_array_def
      i2c_master_send_def dev_err_def split: prod.splits)

lemma wire_update_display:
  "wire (matrixorbitalfb_update_display w) =
     (if shd (kzalloc_rets w) then wire w @ [I2C_send (update_display_data w)] else wire w)"
proof -
  let ?w1 = "w\<lparr>kzalloc_rets := stl (kzalloc_rets w)\<rparr>"
  have d: "update_display_data ?w1 = update_display_data w"
    by (rule update_display_data_cong) simp_all
  show ?thesis
    by (simp add: matrixorbitalfb_update_display_def kzalloc_def matrixorbital_write_array_def
        i2c_master_send_def dev_err_def d length_update_display_data split: prod.splits)
qed

text \<open>
  C2. For a 192 by 64 panel whose video memory has its 1536 bytes, the flush hands one
  buffer to \<open>i2c_master_send\<close>: it is 1542 bytes long, starts with the header
  \<open>0xFE, 0x64, 0, 0, 192, 64\<close>, and the byte at offset \<open>6 + i\<close> is the bit reversal of
  byte \<open>i\<close> of the video memory (bit \<open>k\<close> of the one is bit \<open>7 - k\<close> of the other), in the
  same order and with nothing added or left out. The frame is sent when \<open>kzalloc\<close>
  returns memory.
\<close>

theorem wire_frame_192x64:
  assumes "width w = 192" and "height w = 64"
    and "length (screen_base w) = 1536"
    and "shd (kzalloc_rets w)"
  shows "wire (matrixorbitalfb_update_display w) = wire w @ [I2C_send (update_display_data w)]
    \<and> length (update_display_data w) = 1542
    \<and> take 6 (update_display_data w) = [0xFE, 0x64, 0, 0, 192, 64]
    \<and> (\<forall>i<1536. update_display_data w ! (6 + i) = reverse_bits_in_byte (screen_base w ! i))
    \<and> (\<forall>i<1536. \<forall>k<8. bit (update_display_data w ! (6 + i)) k = bit (screen_base w ! i) (7 - k))
    \<and> drop 6 (update_display_data w) = map reverse_bits_in_byte (screen_base w)"
proof -
  have n: "unat (height w * width w div 8) = 1536"
    using assms(1,2) by simp
  have eq: "update_display_data w =
      [0xFE, 0x64, 0, 0, 192, 64] @ map reverse_bits_in_byte (screen_base w)"
    using update_display_data_eq [of w] assms by (simp add: n)
  have "wire (matrixorbitalfb_update_display w) = wire w @ [I2C_send (update_display_data w)]"
    using assms(4) by (simp add: wire_update_display)
  moreover have "length (update_display_data w) = 1542"
    using assms(3) by (simp add: eq)
  moreover have "take 6 (update_display_data w) = [0xFE, 0x64, 0, 0, 192, 64]"
    by (simp add: eq)
  moreover have p: "\<forall>i<1536. update_display_data w ! (6 + i) = reverse_bits_in_byte (screen_base w ! i)"
    using assms(3) by (simp add: eq nth_append)
  moreover have "\<forall>i<1536. \<forall>k<8. bit (update_display_data w ! (6 + i)) k = bit (screen_base w ! i) (7 - k)"
    using p by (simp add: bit_reverse_bits_in_byte)
  moreover have "drop 6 (update_display_data w) = map reverse_bits_in_byte (screen_base w)"
    by (simp add: eq)
  ultimately show ?thesis by blast
qed

text \<open>The blank panel is such a state.\<close>

theorem wire_frame_192x64_witness:
  "length (screen_base blank_panel) = 1536
   \<and> length (update_display_data blank_panel) = 1542
   \<and> take 6 (update_display_data blank_panel) = [0xFE, 0x64, 0, 0, 192, 64]
   \<and> drop 6 (update_display_data blank_panel) = map reverse_bits_in_byte (screen_base blank_panel)"
proof -
  have h: "width blank_panel = 192" "height blank_panel = 64"
    "length (screen_base blank_panel) = 1536" "shd (kzalloc_rets blank_panel)"
    by (simp_all add: blank_panel_def)
  show ?thesis
    using h(3) wire_frame_192x64 [OF h] by simp
qed

section \<open>Properties of the command channel\<close>

lemmas channel_defs = matrixorbital_write_array_def matrixorbital_write_cmd_def
  matrixorbital_write_param_def matrixorbital_read_param_def i2c_master_send_def
  i2c_master_recv_def msleep_def dev_err_def

lemma read_param_fst:
  "fst (matrixorbital_read_param cmd w) =
     (if fst (shd (i2c_recv_rets w)) = 1 then ucast (snd (shd (i2c_recv_rets w)))
      else fst (shd (i2c_recv_rets w)))"
  by (simp add: channel_defs split: prod.splits)

lemma read_param_snd:
  "i2c_recv_rets (snd (matrixorbital_read_param cmd w)) = stl (i2c_recv_rets w)"
  "i2c_send_rets (snd (matrixorbital_read_param cmd w)) = stl (i2c_send_rets w)"
  "input_log (snd (matrixorbital_read_param cmd w)) = input_log w"
  "wire (snd (matrixorbital_read_param cmd w)) = wire w @ [I2C_send [0xFE, cmd], Msleep 5, I2C_recv 1]"
  "klog (snd (matrixorbital_read_param cmd w)) =
     klog w @ (if shd (i2c_send_rets w) \<noteq> 2 then [Send_failed] else [])"
  by (simp_all add: channel_defs split: prod.splits)

lemma recv_count_append: "recv_count (es @ fs) = recv_count es + recv_count fs"
  by (induction es rule: recv_count.induct) simp_all

lemma sent_frames_append: "sent_frames (es @ fs) = sent_frames es @ sent_frames fs"
  by (induction es rule: sent_frames.induct) simp_all

lemma uint_ucast_u8: "uint (ucast (d :: u8) :: c_int) = uint d"
  by (rule uint_up_ucast) (simp add: is_up)

lemma sint_ucast_u8: "sint (ucast (d :: u8) :: c_int) = uint d"
proof -
  have lo: "- (2 ^ 31) \<le> uint d"
    by (rule order_trans [OF _ uint_ge_0]) simp
  have hi: "uint d < 2 ^ 31"
    using uint_lt2p [of d] by simp
  have "signed_take_bit 31 (uint d) = uint d"
    by (rule signed_take_bit_int_eq_self [OF lo hi])
  then show ?thesis by (simp add: sint_uint uint_ucast_u8)
qed

lemma ucast_u8_not_negative: "\<not> (ucast (d :: u8) :: c_int) <s 0"
  by (simp add: word_sless_alt sint_ucast_u8)


lemma ucast_u8_eq_0: "(ucast (d :: u8) :: c_int) = 0 \<longleftrightarrow> d = 0"
  by (metis uint_ucast_u8 uint_0_iff)




lemma write_array_fst:
  "fst (matrixorbital_write_array buf len w) = (if shd (i2c_send_rets w) = len then 0 else - 1)"
  by (simp add: channel_defs split: prod.splits)

lemma write_array_snd:
  "i2c_send_rets (snd (matrixorbital_write_array buf len w)) = stl (i2c_send_rets w)"
  "wire (snd (matrixorbital_write_array buf len w)) = wire w @ [I2C_send (take (unat len) buf)]"
  by (simp_all add: channel_defs split: prod.splits)

lemma write_cmd_fst:
  "fst (matrixorbital_write_cmd cmd w) = (if shd (i2c_send_rets w) = 2 then 0 else - 1)"
  by (simp add: matrixorbital_write_cmd_def write_array_fst)

lemma write_cmd_snd:
  "i2c_send_rets (snd (matrixorbital_write_cmd cmd w)) = stl (i2c_send_rets w)"
  "wire (snd (matrixorbital_write_cmd cmd w)) = wire w @ [I2C_send [0xFE, cmd]]"
  by (simp_all add: matrixorbital_write_cmd_def write_array_snd)

lemma write_param_snd:
  "i2c_send_rets (snd (matrixorbital_write_param cmd v w)) = stl (i2c_send_rets w)"
  "wire (snd (matrixorbital_write_param cmd v w)) = wire w @ [I2C_send [0xFE, cmd, v]]"
  by (simp_all add: matrixorbital_write_param_def write_array_snd)

lemma dev_err_fields:
  "i2c_send_rets (dev_err d w) = i2c_send_rets w"
  "wire (dev_err d w) = wire w"
  by (simp_all add: dev_err_def)


text \<open>
  X3. The frames of the command channel. A command is the two bytes \<open>0xFE, cmd\<close>, a
  parameter write the three bytes \<open>0xFE, cmd, value\<close>; each returns 0 when
  \<open>i2c_master_send\<close> acknowledges exactly the bytes sent and -1 otherwise. A parameter
  read sends the command, sleeps 5 ms and then receives one byte.
\<close>

theorem command_frames:
  "wire (snd (matrixorbital_write_cmd cmd w)) = wire w @ [I2C_send [0xFE, cmd]]
   \<and> fst (matrixorbital_write_cmd cmd w) = (if shd (i2c_send_rets w) = 2 then 0 else - 1)
   \<and> wire (snd (matrixorbital_write_param cmd v w)) = wire w @ [I2C_send [0xFE, cmd, v]]
   \<and> fst (matrixorbital_write_param cmd v w) = (if shd (i2c_send_rets w) = 3 then 0 else - 1)
   \<and> wire (snd (matrixorbital_read_param cmd w)) =
       wire w @ [I2C_send [0xFE, cmd], Msleep 5, I2C_recv 1]"
  by (simp add: write_cmd_snd write_cmd_fst write_param_snd read_param_snd)
    (simp add: matrixorbital_write_param_def write_array_fst)

section \<open>Properties of the session bring-up\<close>

text \<open>
  C6. \<open>matrixorbital_init\<close> sends four commands: select the protocol, read the module
  type, switch the automatic key transmission off, clear the screen. Its return value is
  decided by the fourth send alone: 0 when \<open>i2c_master_send\<close> acknowledges the two
  bytes of the clear-screen command, -1 otherwise. Whatever the first three sends and
  the read of the module type answer, they do not change the result.
\<close>

theorem init_fails_iff_clear_screen_fails:
  "fst (matrixorbital_init w) =
     (if shd (stl (stl (stl (i2c_send_rets w)))) = 2 then 0 else - 1)
   \<and> sent_frames (wire (snd (matrixorbital_init w))) =
       sent_frames (wire w) @ [[0xFE, 0xA0, 0], [0xFE, 0x37], [0xFE, 0x4F], [0xFE, 0x58]]"
  by (simp add: matrixorbital_init_def case_prod_beta write_cmd_fst write_cmd_snd
      write_param_snd read_param_snd dev_err_fields sent_frames_append word_sless_alt
      MATRIXORBITAL_TX_PROTOCOL_SELECT_def MATRIXORBITAL_READ_MODULE_TYPE_def
      MATRIXORBITAL_AUTO_TX_KEY_PRESS_OFF_def MATRIXORBITAL_CLEAR_SCREEN_def)

text \<open>
  First the read of the module type fails (its command is not acknowledged, the receive
  returns an errno) and all else succeeds: init returns 0. Then only the clear-screen
  send fails: init returns -1.
\<close>

theorem init_model_read_fails_witness:
  "fst (matrixorbital_init
         (blank_panel\<lparr>i2c_send_rets := 3 ## (- 5) ## sconst 2, i2c_recv_rets := sconst (- 5, 0)\<rparr>)) = 0
   \<and> fst (matrixorbital_init
         (blank_panel\<lparr>i2c_send_rets := 3 ## 2 ## 2 ## sconst (- 5)\<rparr>)) = - 1"
  using init_fails_iff_clear_screen_fails
      [of "blank_panel\<lparr>i2c_send_rets := 3 ## (- 5) ## sconst 2, i2c_recv_rets := sconst (- 5, 0)\<rparr>"]
    init_fails_iff_clear_screen_fails
      [of "blank_panel\<lparr>i2c_send_rets := 3 ## 2 ## 2 ## sconst (- 5)\<rparr>"]
  by simp

section \<open>Properties of the keypad poll\<close>

lemma report_key_fields:
  "i2c_recv_rets (matrixorbital_report_key K c w) = i2c_recv_rets w"
  "i2c_send_rets (matrixorbital_report_key K c w) = i2c_send_rets w"
  "wire (matrixorbital_report_key K c w) = wire w"
  "screen_base (matrixorbital_report_key K c w) = screen_base w"
  by (simp_all add: matrixorbital_report_key_def input_sync_def input_report_key_def dev_err_def
      split: prod.splits)

lemma report_key_input_log:
  "input_log (matrixorbital_report_key K c w) = input_log w @
     (let keycode =
        (if c = 0x41 then KEY_ESC K else if c = 0x42 then KEY_UP K
         else if c = 0x43 then KEY_RIGHT K else if c = 0x44 then KEY_LEFT K
         else if c = 0x45 then KEY_ENTER K else if c = 0x47 then KEY_BACKSPACE K
         else if c = 0x48 then KEY_DOWN K else 0)
      in [Input_report_key keycode 1, Input_sync, Input_report_key keycode 0, Input_sync])"
  by (simp add: matrixorbital_report_key_def input_sync_def input_report_key_def dev_err_def Let_def)

lemma keypad_poll_stop:
  assumes "fst (matrixorbital_read_param MATRIXORBITAL_POLL_KEY_PRESS w) <s 0
     \<or> fst (matrixorbital_read_param MATRIXORBITAL_POLL_KEY_PRESS w) = 0"
  shows "matrixorbital_keypad_poll K w =
     Some (snd (matrixorbital_read_param MATRIXORBITAL_POLL_KEY_PRESS w))"
  using assms by (subst matrixorbital_keypad_poll.simps) (auto split: prod.splits)

lemma keypad_poll_step:
  assumes "\<not> fst (matrixorbital_read_param MATRIXORBITAL_POLL_KEY_PRESS w) <s 0"
    and "fst (matrixorbital_read_param MATRIXORBITAL_POLL_KEY_PRESS w) \<noteq> 0"
  shows "matrixorbital_keypad_poll K w =
     (if fst (matrixorbital_read_param MATRIXORBITAL_POLL_KEY_PRESS w) AND 0x80 \<noteq> 0
      then matrixorbital_keypad_poll K
        (matrixorbital_report_key K (fst (matrixorbital_read_param MATRIXORBITAL_POLL_KEY_PRESS w) AND 0x7F)
           (snd (matrixorbital_read_param MATRIXORBITAL_POLL_KEY_PRESS w)))
      else Some (matrixorbital_report_key K (fst (matrixorbital_read_param MATRIXORBITAL_POLL_KEY_PRESS w) AND 0x7F)
           (snd (matrixorbital_read_param MATRIXORBITAL_POLL_KEY_PRESS w))))"
  using assms by (subst matrixorbital_keypad_poll.simps) (auto split: prod.splits simp: Let_def)

lemma continuation_bit: "(ucast (d :: u8) :: c_int) AND 0x80 \<noteq> 0 \<longleftrightarrow> bit d 7"
proof -
  have "(0x80 :: c_int) = 2 ^ 7" by simp
  then have "(ucast d :: c_int) AND 0x80 = 0 \<longleftrightarrow> \<not> bit (ucast d :: c_int) 7"
    by (simp only: and_exp_eq_0_iff_not_bit)
  then show ?thesis by (simp add: bit_ucast_iff)
qed

lemma keypad_poll_byte:
  assumes "shd (i2c_recv_rets w) = (1, d)" and "d \<noteq> 0"
  shows "matrixorbital_keypad_poll K w =
     (if bit d 7
      then matrixorbital_keypad_poll K
        (matrixorbital_report_key K (ucast d AND 0x7F)
           (snd (matrixorbital_read_param MATRIXORBITAL_POLL_KEY_PRESS w)))
      else Some (matrixorbital_report_key K (ucast d AND 0x7F)
           (snd (matrixorbital_read_param MATRIXORBITAL_POLL_KEY_PRESS w))))"
proof -
  have r: "fst (matrixorbital_read_param MATRIXORBITAL_POLL_KEY_PRESS w) = ucast d"
    using assms(1) by (simp add: read_param_fst)
  show ?thesis
    using assms(2) keypad_poll_step [of w K]
    by (simp add: r ucast_u8_not_negative ucast_u8_eq_0 continuation_bit)
qed

text \<open>
  C8. When the first \<open>matrixorbital_read_param\<close> of a poll returns a negative value
  (a transport error) or 0, \<open>matrixorbital_keypad_poll\<close> returns at once: the state it
  leaves is the one after that single read, and nothing has been added to the calls
  into the input core.
\<close>

theorem keypad_poll_nothing_pending:
  assumes "fst (matrixorbital_read_param MATRIXORBITAL_POLL_KEY_PRESS w) <s 0
     \<or> fst (matrixorbital_read_param MATRIXORBITAL_POLL_KEY_PRESS w) = 0"
  shows "matrixorbital_keypad_poll K w =
       Some (snd (matrixorbital_read_param MATRIXORBITAL_POLL_KEY_PRESS w))
     \<and> input_log (snd (matrixorbital_read_param MATRIXORBITAL_POLL_KEY_PRESS w)) = input_log w
     \<and> wire (snd (matrixorbital_read_param MATRIXORBITAL_POLL_KEY_PRESS w)) =
         wire w @ [I2C_send [0xFE, 0x26], Msleep 5, I2C_recv 1]"
  using keypad_poll_stop [OF assms]
  by (simp add: read_param_snd MATRIXORBITAL_POLL_KEY_PRESS_def)

text \<open>The poll sequence \<open>[0x00]\<close>: one read, no event.\<close>

theorem keypad_poll_nothing_pending_witness:
  "fst (matrixorbital_read_param MATRIXORBITAL_POLL_KEY_PRESS blank_panel) = 0
   \<and> map_option input_log (matrixorbital_keypad_poll linux_keycodes blank_panel) = Some []
   \<and> map_option (recv_count \<circ> wire) (matrixorbital_keypad_poll linux_keycodes blank_panel) = Some 1"
proof -
  have h: "fst (matrixorbital_read_param MATRIXORBITAL_POLL_KEY_PRESS blank_panel) = 0"
    by (simp add: read_param_fst blank_panel_def)
  then have "fst (matrixorbital_read_param MATRIXORBITAL_POLL_KEY_PRESS blank_panel) <s 0
     \<or> fst (matrixorbital_read_param MATRIXORBITAL_POLL_KEY_PRESS blank_panel) = 0" by simp
  from keypad_poll_nothing_pending [OF this, of linux_keycodes] h
  show ?thesis by (simp add: blank_panel_def)
qed

text \<open>
  C3. When the device answers \<open>0xC1\<close> and then \<open>0x42\<close>, one poll returns after
  reporting press and release of \<open>KEY_ESC\<close>, then press and release of \<open>KEY_UP\<close>, each
  followed by \<open>input_sync\<close>. It has read twice: it stops after \<open>0x42\<close>, whose
  continuation bit is clear, and whatever the device would answer next (a \<open>0x00\<close>) is
  not read in this poll. In general, after a one-byte response that is not zero, the poll
  goes on with another read when bit 7 of the byte is set, and returns after reporting the
  code when it is clear.
\<close>

theorem keypad_poll_burst:
  "(shd (i2c_recv_rets w) = (1, 0xC1) \<and> shd (stl (i2c_recv_rets w)) = (1, 0x42) \<longrightarrow>
      (\<exists>w'. matrixorbital_keypad_poll K w = Some w'
         \<and> input_log w' = input_log w @
             [Input_report_key (KEY_ESC K) 1, Input_sync, Input_report_key (KEY_ESC K) 0, Input_sync,
              Input_report_key (KEY_UP K) 1, Input_sync, Input_report_key (KEY_UP K) 0, Input_sync]
         \<and> recv_count (wire w') = recv_count (wire w) + 2
         \<and> i2c_recv_rets w' = stl (stl (i2c_recv_rets w))))
   \<and> (shd (i2c_recv_rets w) = (1, d) \<and> d \<noteq> 0 \<and> bit d 7 \<longrightarrow>
        matrixorbital_keypad_poll K w =
          matrixorbital_keypad_poll K
            (matrixorbital_report_key K (ucast d AND 0x7F)
               (snd (matrixorbital_read_param MATRIXORBITAL_POLL_KEY_PRESS w))))
   \<and> (shd (i2c_recv_rets w) = (1, d) \<and> d \<noteq> 0 \<and> \<not> bit d 7 \<longrightarrow>
        matrixorbital_keypad_poll K w =
          Some (matrixorbital_report_key K (ucast d AND 0x7F)
               (snd (matrixorbital_read_param MATRIXORBITAL_POLL_KEY_PRESS w))))"
proof (intro conjI impI)
  assume a: "shd (i2c_recv_rets w) = (1, 0xC1) \<and> shd (stl (i2c_recv_rets w)) = (1, 0x42)"
  let ?w1 = "matrixorbital_report_key K 0x41
               (snd (matrixorbital_read_param MATRIXORBITAL_POLL_KEY_PRESS w))"
  let ?w2 = "matrixorbital_report_key K 0x42
               (snd (matrixorbital_read_param MATRIXORBITAL_POLL_KEY_PRESS ?w1))"
  have s1: "matrixorbital_keypad_poll K w = matrixorbital_keypad_poll K ?w1"
    using a keypad_poll_byte [of w "0xC1" K] by simp
  have "shd (i2c_recv_rets ?w1) = (1, 0x42)"
    using a by (simp add: report_key_fields read_param_snd)
  then have s2: "matrixorbital_keypad_poll K ?w1 = Some ?w2"
    using keypad_poll_byte [of ?w1 "0x42" K] by simp
  have "input_log ?w2 = input_log w @
             [Input_report_key (KEY_ESC K) 1, Input_sync, Input_report_key (KEY_ESC K) 0, Input_sync,
              Input_report_key (KEY_UP K) 1, Input_sync, Input_report_key (KEY_UP K) 0, Input_sync]"
    by (simp add: report_key_input_log read_param_snd Let_def)
  moreover have "recv_count (wire ?w2) = recv_count (wire w) + 2"
    by (simp add: report_key_fields read_param_snd recv_count_append)
  moreover have "i2c_recv_rets ?w2 = stl (stl (i2c_recv_rets w))"
    by (simp add: report_key_fields read_param_snd)
  ultimately show "\<exists>w'. matrixorbital_keypad_poll K w = Some w'
         \<and> input_log w' = input_log w @
             [Input_report_key (KEY_ESC K) 1, Input_sync, Input_report_key (KEY_ESC K) 0, Input_sync,
              Input_report_key (KEY_UP K) 1, Input_sync, Input_report_key (KEY_UP K) 0, Input_sync]
         \<and> recv_count (wire w') = recv_count (wire w) + 2
         \<and> i2c_recv_rets w' = stl (stl (i2c_recv_rets w))"
    using s1 s2 by simp
next
  assume "shd (i2c_recv_rets w) = (1, d) \<and> d \<noteq> 0 \<and> bit d 7"
  then show "matrixorbital_keypad_poll K w =
          matrixorbital_keypad_poll K
            (matrixorbital_report_key K (ucast d AND 0x7F)
               (snd (matrixorbital_read_param MATRIXORBITAL_POLL_KEY_PRESS w)))"
    using keypad_poll_byte [of w d K] by simp
next
  assume "shd (i2c_recv_rets w) = (1, d) \<and> d \<noteq> 0 \<and> \<not> bit d 7"
  then show "matrixorbital_keypad_poll K w =
          Some (matrixorbital_report_key K (ucast d AND 0x7F)
               (snd (matrixorbital_read_param MATRIXORBITAL_POLL_KEY_PRESS w)))"
    using keypad_poll_byte [of w d K] by simp
qed


text \<open>The sequence \<open>0xC1, 0x42, 0x00\<close> with the kernel's key codes 1 and 103.\<close>

theorem keypad_poll_burst_witness:
  "map_option input_log (matrixorbital_keypad_poll linux_keycodes
      (blank_panel\<lparr>i2c_recv_rets := (1, 0xC1) ## (1, 0x42) ## sconst (1, 0)\<rparr>)) =
     Some [Input_report_key 1 1, Input_sync, Input_report_key 1 0, Input_sync,
           Input_report_key 103 1, Input_sync, Input_report_key 103 0, Input_sync]"
  using keypad_poll_burst [of "blank_panel\<lparr>i2c_recv_rets := (1, 0xC1) ## (1, 0x42) ## sconst (1, 0)\<rparr>"
      linux_keycodes 0]
  by (auto simp add: blank_panel_def linux_keycodes_def)

text \<open>
  For the sequence \<open>0xC1, 0x42, 0x00\<close> the poll makes two reads, not three: when it
  returns, the \<open>0x00\<close> is still the next answer of the device.
\<close>

theorem keypad_poll_burst_counterexample:
  "map_option (recv_count \<circ> wire) (matrixorbital_keypad_poll linux_keycodes
      (blank_panel\<lparr>i2c_recv_rets := (1, 0xC1) ## (1, 0x42) ## sconst (1, 0)\<rparr>)) = Some 2
   \<and> map_option (shd \<circ> i2c_recv_rets) (matrixorbital_keypad_poll linux_keycodes
      (blank_panel\<lparr>i2c_recv_rets := (1, 0xC1) ## (1, 0x42) ## sconst (1, 0)\<rparr>)) = Some (1, 0)"
proof -
  let ?w = "blank_panel\<lparr>i2c_recv_rets := (1, 0xC1) ## (1, 0x42) ## sconst (1, 0)\<rparr>"
  let ?w1 = "matrixorbital_report_key linux_keycodes 0x41
               (snd (matrixorbital_read_param MATRIXORBITAL_POLL_KEY_PRESS ?w))"
  let ?w2 = "matrixorbital_report_key linux_keycodes 0x42
               (snd (matrixorbital_read_param MATRIXORBITAL_POLL_KEY_PRESS ?w1))"
  have s1: "matrixorbital_keypad_poll linux_keycodes ?w = matrixorbital_keypad_poll linux_keycodes ?w1"
    using keypad_poll_byte [of ?w "0xC1" linux_keycodes] by simp
  have "shd (i2c_recv_rets ?w1) = (1, 0x42)"
    by (simp add: report_key_fields read_param_snd)
  then have s2: "matrixorbital_keypad_poll linux_keycodes ?w1 = Some ?w2"
    using keypad_poll_byte [of ?w1 "0x42" linux_keycodes] by simp
  show ?thesis
    unfolding s1 s2
    by (simp add: report_key_fields read_param_snd recv_count_append blank_panel_def)
qed

text \<open>
  C4. The device answers \<open>0x50\<close>, a code outside the translation table, with the
  continuation bit clear. The poll logs the unknown code once and stops after one read,
  but it also calls \<open>input_report_key\<close> with key code 0, value 1 and then value 0: the
  \<open>default\<close> branch of the \<open>switch\<close> only logs, and the report after the \<open>switch\<close>
  runs for every code.
\<close>

theorem keypad_poll_unknown_code_reports_key_0:
  "map_option input_log (matrixorbital_keypad_poll K
      (blank_panel\<lparr>i2c_recv_rets := (1, 0x50) ## sconst (1, 0)\<rparr>)) =
     Some [Input_report_key 0 1, Input_sync, Input_report_key 0 0, Input_sync]
   \<and> map_option klog (matrixorbital_keypad_poll K
      (blank_panel\<lparr>i2c_recv_rets := (1, 0x50) ## sconst (1, 0)\<rparr>)) =
     Some [Unknown_keycode 0x50, Report_key_msg 0 0x50]
   \<and> map_option (recv_count \<circ> wire) (matrixorbital_keypad_poll K
      (blank_panel\<lparr>i2c_recv_rets := (1, 0x50) ## sconst (1, 0)\<rparr>)) = Some 1"
proof -
  let ?w = "blank_panel\<lparr>i2c_recv_rets := (1, 0x50) ## sconst (1, 0)\<rparr>"
  have "matrixorbital_keypad_poll K ?w =
      Some (matrixorbital_report_key K 0x50
        (snd (matrixorbital_read_param MATRIXORBITAL_POLL_KEY_PRESS ?w)))"
    using keypad_poll_byte [of ?w "0x50" K] by simp
  then have p: "matrixorbital_keypad_poll K ?w =
      Some (matrixorbital_report_key K 0x50
        (snd (matrixorbital_read_param MATRIXORBITAL_POLL_KEY_PRESS ?w)))" .
  show ?thesis
    unfolding p
    by (simp add: channel_defs blank_panel_def matrixorbital_report_key_def input_sync_def
        input_report_key_def MATRIXORBITAL_POLL_KEY_PRESS_def)
qed

lemma read_param_read_result:
  "fst (matrixorbital_read_param cmd w) = read_result (shd (i2c_recv_rets w))"
  by (simp add: read_param_fst read_result_def)

lemma keypad_poll_unfold:
  "matrixorbital_keypad_poll K w =
     (if ends_burst (shd (i2c_recv_rets w))
      then Some (if read_result (shd (i2c_recv_rets w)) <s 0 \<or> read_result (shd (i2c_recv_rets w)) = 0
                 then snd (matrixorbital_read_param MATRIXORBITAL_POLL_KEY_PRESS w)
                 else matrixorbital_report_key K (read_result (shd (i2c_recv_rets w)) AND 0x7F)
                        (snd (matrixorbital_read_param MATRIXORBITAL_POLL_KEY_PRESS w)))
      else matrixorbital_keypad_poll K
             (matrixorbital_report_key K (read_result (shd (i2c_recv_rets w)) AND 0x7F)
                (snd (matrixorbital_read_param MATRIXORBITAL_POLL_KEY_PRESS w))))"
  by (subst matrixorbital_keypad_poll.simps)
    (simp add: case_prod_beta Let_def ends_burst_def read_param_read_result)

lemma keypad_poll_returns_if:
  "ends_burst (i2c_recv_rets w !! n) \<Longrightarrow> \<exists>w'. matrixorbital_keypad_poll K w = Some w'"
proof (induction n arbitrary: w)
  case 0
  then show ?case by (subst keypad_poll_unfold) simp
next
  case (Suc n)
  let ?w2 = "matrixorbital_report_key K (read_result (shd (i2c_recv_rets w)) AND 0x7F)
                (snd (matrixorbital_read_param MATRIXORBITAL_POLL_KEY_PRESS w))"
  have "i2c_recv_rets ?w2 = stl (i2c_recv_rets w)"
    by (simp add: report_key_fields read_param_snd)
  then have "ends_burst (i2c_recv_rets ?w2 !! n)" using Suc.prems by simp
  then have "\<exists>w'. matrixorbital_keypad_poll K ?w2 = Some w'" by (rule Suc.IH)
  then show ?case by (subst keypad_poll_unfold) simp
qed

lemma keypad_poll_returns_only_if:
  assumes "matrixorbital_keypad_poll K w = Some w'"
  shows "\<exists>n. ends_burst (i2c_recv_rets w !! n)"
proof (rule matrixorbital_keypad_poll.raw_induct
    [where P = "\<lambda>K w y. \<exists>n. ends_burst (i2c_recv_rets w !! n)", OF _ assms])
  fix poll :: "keycodes \<Rightarrow> world \<Rightarrow> world option" and K w y
  assume IH: "\<And>K w y. poll K w = Some y \<Longrightarrow> \<exists>n. ends_burst (i2c_recv_rets w !! n)"
  assume body: "(case matrixorbital_read_param MATRIXORBITAL_POLL_KEY_PRESS w of
      (ret, w1) \<Rightarrow>
        if ret <s 0 then Some w1
        else if ret = 0 then Some w1
             else let w2 = matrixorbital_report_key K (ret AND 0x7F) w1
                  in if ret AND 0x80 \<noteq> 0 then poll K w2 else Some w2) = Some y"
  show "\<exists>n. ends_burst (i2c_recv_rets w !! n)"
  proof (cases "ends_burst (shd (i2c_recv_rets w))")
    case True
    then have "ends_burst (i2c_recv_rets w !! 0)" by simp
    then show ?thesis by blast
  next
    case False
    let ?w2 = "matrixorbital_report_key K (read_result (shd (i2c_recv_rets w)) AND 0x7F)
                (snd (matrixorbital_read_param MATRIXORBITAL_POLL_KEY_PRESS w))"
    have "poll K ?w2 = Some y"
      using body False
      by (simp add: case_prod_beta Let_def ends_burst_def read_param_read_result)
    then obtain n where "ends_burst (i2c_recv_rets ?w2 !! n)"
      using IH by blast
    then have "ends_burst (i2c_recv_rets w !! Suc n)"
      by (simp add: report_key_fields read_param_snd)
    then show ?thesis by blast
  qed
qed

text \<open>
  X1. The poll loop has no bound of its own. One call of \<open>matrixorbital_keypad_poll\<close>
  returns exactly when some answer of the device ends the burst: a read that fails, a
  zero, or a code with the continuation bit clear. A device that answers every read
  with the continuation bit set keeps the poll in its loop for ever.
\<close>

theorem keypad_poll_returns_iff:
  "(\<exists>w'. matrixorbital_keypad_poll K w = Some w') \<longleftrightarrow> (\<exists>n. ends_burst (i2c_recv_rets w !! n))"
  using keypad_poll_returns_if keypad_poll_returns_only_if by blast

text \<open>
  A device that always answers \<open>0xC1\<close>: the poll does not return. A device with
  nothing pending: it does.
\<close>

theorem keypad_poll_returns_iff_witness:
  "matrixorbital_keypad_poll linux_keycodes (blank_panel\<lparr>i2c_recv_rets := sconst (1, 0xC1)\<rparr>) = None
   \<and> matrixorbital_keypad_poll linux_keycodes blank_panel \<noteq> None"
proof -
  have "\<And>n. \<not> ends_burst (sconst (1 :: c_int, 0xC1 :: u8) !! n)"
    by (simp add: ends_burst_def read_result_def word_sless_alt)
  then have a: "matrixorbital_keypad_poll linux_keycodes
      (blank_panel\<lparr>i2c_recv_rets := sconst (1, 0xC1)\<rparr>) = None"
    using keypad_poll_returns_iff [of linux_keycodes "blank_panel\<lparr>i2c_recv_rets := sconst (1, 0xC1)\<rparr>"]
    by auto
  have "ends_burst (i2c_recv_rets blank_panel !! 0)"
    by (simp add: ends_burst_def read_result_def blank_panel_def)
  then have "\<exists>n. ends_burst (i2c_recv_rets blank_panel !! n)" by blast
  then have b: "matrixorbital_keypad_poll linux_keycodes blank_panel \<noteq> None"
    using keypad_poll_returns_iff [of linux_keycodes blank_panel] by auto
  show ?thesis using a b by simp
qed

section \<open>Properties of the raw write\<close>

lemma copy_from_user_fields:
  "smem_len (snd (copy_from_user dst ubuf n w)) = smem_len w"
  "width (snd (copy_from_user dst ubuf n w)) = width w"
  "height (snd (copy_from_user dst ubuf n w)) = height w"
  "kzalloc_rets (snd (copy_from_user dst ubuf n w)) = kzalloc_rets w"
  "i2c_send_rets (snd (copy_from_user dst ubuf n w)) = i2c_send_rets w"
  "wire (snd (copy_from_user dst ubuf n w)) = wire w"
  "screen_base (snd (copy_from_user dst ubuf n w)) =
     mem_store (screen_base w) (unat dst)
       (take (unat n) ubuf @ replicate (unat n - length (take (unat n) ubuf)) 0)"
  by (simp_all add: copy_from_user_def Let_def)

lemma of_nat_u64_eq_0: "m < 2 ^ 64 \<Longrightarrow> (of_nat m :: c_ulong) = 0 \<longleftrightarrow> m = 0"
  using of_nat_neq_0 [of m, where ?'a = 64] by auto

lemma unat_ucast_u32: "unat (ucast (x :: u32) :: c_ulong) = unat x"
proof -
  have "unat x < 2 ^ 32" using unsigned_less [of x] by simp
  then have "unat x < 2 ^ 64" by simp
  then show ?thesis by (simp add: unsigned_ucast_eq take_bit_nat_eq_self)
qed

lemma copy_from_user_fst:
  "fst (copy_from_user dst ubuf n w) = 0 \<longleftrightarrow> unat n \<le> length ubuf"
proof -
  let ?m = "unat n - length (take (unat n) ubuf)"
  have "unat n < 2 ^ 64" using unsigned_less [of n] by simp
  then have "?m < 2 ^ 64" by arith
  then have "(of_nat ?m :: c_ulong) = 0 \<longleftrightarrow> ?m = 0"
    by (rule of_nat_u64_eq_0)
  then show ?thesis by (simp add: copy_from_user_def Let_def)
qed

lemma fb_write_fst:
  "fst (matrixorbitalfb_write buf count ppos w) =
     (let total_size = ucast (smem_len w);
          n = (if count + ppos > total_size then total_size - ppos else count)
      in if ppos > total_size then Inl EINVAL
         else if n = 0 then Inl EINVAL
         else if unat n \<le> length buf then Inr n
         else Inl EFAULT)"
  by (simp add: matrixorbitalfb_write_def Let_def case_prod_beta copy_from_user_fst)


lemma mem_store_props:
  assumes "off + length bytes \<le> length mem"
  shows "length (mem_store mem off bytes) = length mem"
    and "take off (mem_store mem off bytes) = take off mem"
    and "drop (off + length bytes) (mem_store mem off bytes) = drop (off + length bytes) mem"
    and "take (length bytes) (drop off (mem_store mem off bytes)) = bytes"
proof -
  have le: "off \<le> length mem" using assms by simp
  then have m: "min (length mem) off = off" by simp
  show "length (mem_store mem off bytes) = length mem"
    using assms by (simp add: mem_store_def m)
  show "take off (mem_store mem off bytes) = take off mem"
    using le by (simp add: mem_store_def m)
  show "drop (off + length bytes) (mem_store mem off bytes) = drop (off + length bytes) mem"
    using le by (simp add: mem_store_def m)
  show "take (length bytes) (drop off (mem_store mem off bytes)) = bytes"
    using le by (simp add: mem_store_def m)
qed

lemma length_copied:
  "length (take n ubuf @ replicate (n - length (take n ubuf)) (0 :: u8)) = n"
  by simp

lemma fb_write_screen_base:
  "screen_base (snd (snd (matrixorbitalfb_write buf count ppos w))) =
     (let total_size = ucast (smem_len w);
          n = (if count + ppos > total_size then total_size - ppos else count)
      in if ppos > total_size \<or> n = 0 then screen_base w
         else mem_store (screen_base w) (unat ppos)
                (take (unat n) buf @ replicate (unat n - length (take (unat n) buf)) 0))"
  by (simp add: matrixorbitalfb_write_def Let_def case_prod_beta copy_from_user_fields
      update_display_fields)

lemma fb_write_smem_len:
  "smem_len (snd (snd (matrixorbitalfb_write buf count ppos w))) = smem_len w"
  by (simp add: matrixorbitalfb_write_def Let_def case_prod_beta copy_from_user_fields
      update_display_fields)

lemma fb_write_rejected:
  "ppos > ucast (smem_len w) \<or>
     (if count + ppos > ucast (smem_len w) then ucast (smem_len w) - ppos else count) = 0 \<Longrightarrow>
   matrixorbitalfb_write buf count ppos w = (Inl EINVAL, ppos, w)"
  by (auto simp add: matrixorbitalfb_write_def Let_def)

text \<open>
  The bounds of a raw write whose sum \<open>count + ppos\<close> does not wrap around the 64 bits
  of an \<open>unsigned long\<close>.
\<close>

lemma fb_write_bounds_no_wrap:
  assumes len: "length (screen_base w) = unat (smem_len w)"
    and nowrap: "unat count + unat ppos < 2 ^ 64"
  shows
    "let total = length (screen_base w);
         n = (if total < unat count + unat ppos then total - unat ppos else unat count);
         r = matrixorbitalfb_write buf count ppos w;
         w' = snd (snd r)
     in (total < unat ppos \<longrightarrow> r = (Inl EINVAL, ppos, w))
      \<and> (unat ppos \<le> total \<and> n = 0 \<longrightarrow> r = (Inl EINVAL, ppos, w))
      \<and> (unat ppos \<le> total \<and> 0 < n \<longrightarrow>
           (fst r = Inr (of_nat n) \<or> fst r = Inl EFAULT)
           \<and> unat ppos + n \<le> total
           \<and> take (unat ppos) (screen_base w') = take (unat ppos) (screen_base w)
           \<and> drop (unat ppos + n) (screen_base w') = drop (unat ppos + n) (screen_base w))
      \<and> length (screen_base w') = total
      \<and> smem_len w' = smem_len w"
proof -
  let ?total = "length (screen_base w)"
  let ?ts = "ucast (smem_len w) :: c_ulong"
  let ?nw = "if count + ppos > ?ts then ?ts - ppos else count"
  let ?n = "if ?total < unat count + unat ppos then ?total - unat ppos else unat count"
  let ?r = "matrixorbitalfb_write buf count ppos w"
  let ?w' = "snd (snd ?r)"
  have ts: "unat ?ts = ?total" by (simp add: unat_ucast_u32 len)
  have gt: "ppos > ?ts \<longleftrightarrow> ?total < unat ppos"
    by (simp add: word_less_nat_alt ts)
  have sum: "unat (count + ppos) = unat count + unat ppos"
    using nowrap by (simp add: unat_add_lem [THEN iffD1])
  have over: "count + ppos > ?ts \<longleftrightarrow> ?total < unat count + unat ppos"
    by (simp add: word_less_nat_alt ts sum)
  have n: "unat ppos \<le> ?total \<Longrightarrow> unat ?nw = ?n"
    by (simp add: over unat_sub word_le_nat_alt ts)
  have n0: "unat ppos \<le> ?total \<Longrightarrow> ?nw = 0 \<longleftrightarrow> ?n = 0"
  proof -
    assume p: "unat ppos \<le> ?total"
    have "?nw = 0 \<longleftrightarrow> unat ?nw = 0" by (simp only: unat_eq_0)
    then show ?thesis by (simp only: n [OF p])
  qed
  have a: "?total < unat ppos \<Longrightarrow> ?r = (Inl EINVAL, ppos, w)"
    using gt by (intro fb_write_rejected) simp
  have b: "unat ppos \<le> ?total \<Longrightarrow> ?n = 0 \<Longrightarrow> ?r = (Inl EINVAL, ppos, w)"
    using n0 by (intro fb_write_rejected) simp
  have c1: "unat ppos \<le> ?total \<Longrightarrow> 0 < ?n \<Longrightarrow> fst ?r = Inr (of_nat ?n) \<or> fst ?r = Inl EFAULT"
  proof -
    assume p: "unat ppos \<le> ?total" and "0 < ?n"
    then have "?nw \<noteq> 0" using n0 by simp
    moreover have "\<not> ppos > ?ts" using p gt by simp
    moreover have "of_nat ?n = ?nw"
    proof -
      have "of_nat (unat ?nw) = ?nw" by simp
      then show ?thesis by (simp only: n [OF p])
    qed
    ultimately show ?thesis
      by (simp only: fb_write_fst Let_def) (simp split: if_splits)
  qed
  have c2: "unat ppos \<le> ?total \<Longrightarrow> unat ppos + ?n \<le> ?total" by simp
  have sb: "unat ppos \<le> ?total \<Longrightarrow> 0 < ?n \<Longrightarrow>
      screen_base ?w' = mem_store (screen_base w) (unat ppos)
         (take ?n buf @ replicate (?n - length (take ?n buf)) 0)"
  proof -
    assume p: "unat ppos \<le> ?total" and "0 < ?n"
    then have "?nw \<noteq> 0" using n0 by simp
    moreover have "\<not> ppos > ?ts" using p gt by simp
    ultimately show ?thesis
      using n [OF p] by (simp only: fb_write_screen_base Let_def) (simp split: if_splits)
  qed
  have c3: "unat ppos \<le> ?total \<Longrightarrow> 0 < ?n \<Longrightarrow>
      take (unat ppos) (screen_base ?w') = take (unat ppos) (screen_base w)
      \<and> drop (unat ppos + ?n) (screen_base ?w') = drop (unat ppos + ?n) (screen_base w)
      \<and> length (screen_base ?w') = ?total"
  proof -
    assume p: "unat ppos \<le> ?total" and pos: "0 < ?n"
    let ?bytes = "take ?n buf @ replicate (?n - length (take ?n buf)) (0 :: u8)"
    have l: "length ?bytes = ?n" by (rule length_copied)
    have fit: "unat ppos + length ?bytes \<le> length (screen_base w)"
      using c2 [OF p] by (simp only: l)
    show ?thesis
      using mem_store_props [OF fit] by (simp only: sb [OF p pos] l)
  qed
  have d: "length (screen_base ?w') = ?total"
  proof (cases "unat ppos \<le> ?total \<and> 0 < ?n")
    case True
    then show ?thesis using c3 by blast
  next
    case False
    then have "?r = (Inl EINVAL, ppos, w)" using a b by (cases "unat ppos \<le> ?total") auto
    then show ?thesis by simp
  qed
  have e: "smem_len ?w' = smem_len w" by (rule fb_write_smem_len)
  show ?thesis
    unfolding Let_def using a b c1 c2 c3 d e by blast
qed

text \<open>
  C10. A raw write at offset \<open>ppos\<close> of \<open>count\<close> bytes, into a video memory that has its
  \<open>smem_len\<close> bytes, for every offset and every count that fits the \<open>ssize_t\<close> the
  function returns (a count below \<open>2^63\<close>). An offset beyond the memory is rejected with
  \<open>EINVAL\<close> and nothing changes. Otherwise, when offset plus count exceeds the size of
  the memory, the count is cut down to what is left after the offset; a count of zero is
  rejected with \<open>EINVAL\<close> and nothing changes. Otherwise the write returns the count or
  \<open>EFAULT\<close>, the bytes it stores lie inside the memory, and the bytes before the offset
  and after the end of the write keep their values. In every case the memory keeps its
  length.
\<close>

theorem fb_write_bounds:
  assumes len: "length (screen_base w) = unat (smem_len w)"
    and fits: "unat count < 2 ^ 63"
  shows
    "let total = length (screen_base w);
         n = (if total < unat count + unat ppos then total - unat ppos else unat count);
         r = matrixorbitalfb_write buf count ppos w;
         w' = snd (snd r)
     in (total < unat ppos \<longrightarrow> r = (Inl EINVAL, ppos, w))
      \<and> (unat ppos \<le> total \<and> n = 0 \<longrightarrow> r = (Inl EINVAL, ppos, w))
      \<and> (unat ppos \<le> total \<and> 0 < n \<longrightarrow>
           (fst r = Inr (of_nat n) \<or> fst r = Inl EFAULT)
           \<and> unat ppos + n \<le> total
           \<and> take (unat ppos) (screen_base w') = take (unat ppos) (screen_base w)
           \<and> drop (unat ppos + n) (screen_base w') = drop (unat ppos + n) (screen_base w))
      \<and> length (screen_base w') = total
      \<and> smem_len w' = smem_len w"
proof (cases "unat ppos \<le> length (screen_base w)")
  case True
  have "unat (smem_len w) < 2 ^ 32" using unsigned_less [of "smem_len w"] by simp
  then have "unat ppos < 2 ^ 32" using True len by simp
  then have "unat count + unat ppos < 2 ^ 64" using fits by simp
  then show ?thesis by (rule fb_write_bounds_no_wrap [OF len])
next
  case False
  have "unat (ucast (smem_len w) :: c_ulong) = length (screen_base w)"
    by (simp add: unat_ucast_u32 len)
  then have "ppos > ucast (smem_len w)"
    using False by (simp add: word_less_nat_alt)
  then have "matrixorbitalfb_write buf count ppos w = (Inl EINVAL, ppos, w)"
    by (intro fb_write_rejected) simp
  then show ?thesis using False by (simp add: Let_def)
qed

text \<open>
  Eight bytes at offset 1530 of the 1536: six are written. Offsets 1537 and 1536 are
  rejected, the first as beyond the memory, the second as a write of zero bytes.
\<close>

theorem fb_write_bounds_witness:
  "fst (matrixorbitalfb_write [1, 2, 3, 4, 5, 6, 7, 8] 8 1530 blank_panel) = Inr 6
   \<and> length (screen_base (snd (snd (matrixorbitalfb_write [1, 2, 3, 4, 5, 6, 7, 8] 8 1530 blank_panel)))) = 1536
   \<and> take 1530 (screen_base (snd (snd (matrixorbitalfb_write [1, 2, 3, 4, 5, 6, 7, 8] 8 1530 blank_panel)))) =
       take 1530 (screen_base blank_panel)
   \<and> matrixorbitalfb_write [1, 2, 3, 4, 5, 6, 7, 8] 8 1537 blank_panel = (Inl EINVAL, 1537, blank_panel)
   \<and> matrixorbitalfb_write [1, 2, 3, 4, 5, 6, 7, 8] 8 1536 blank_panel = (Inl EINVAL, 1536, blank_panel)"
proof -
  have h: "length (screen_base blank_panel) = unat (smem_len blank_panel)"
    by (simp add: blank_panel_def)
  have f: "fst (matrixorbitalfb_write [1, 2, 3, 4, 5, 6, 7, 8] 8 1530 blank_panel) = Inr 6"
    by (simp add: fb_write_fst blank_panel_def)
  have l: "length (screen_base blank_panel) = 1536"
    by (simp add: blank_panel_def)
  have c: "unat (8 :: c_ulong) < 2 ^ 63"
    by simp
  show ?thesis
    using fb_write_bounds [OF h c, of 1530 "[1, 2, 3, 4, 5, 6, 7, 8]"]
      fb_write_bounds [OF h c, of 1537 "[1, 2, 3, 4, 5, 6, 7, 8]"]
      fb_write_bounds [OF h c, of 1536 "[1, 2, 3, 4, 5, 6, 7, 8]"]
    by (simp add: f l Let_def)
qed

section \<open>Properties of the drawing calls\<close>

text \<open>
  C9. What a drawing call hands back to its caller does not depend on the flush. For the
  raw write, the return value, the new file position and the video memory are the same
  whatever \<open>i2c_master_send\<close> and \<open>kzalloc\<close> answer. The rectangle fill, the area copy
  and the image composition return nothing; they leave the video memory as the drawing
  primitive made it, whatever the transport answers.
\<close>

theorem drawing_calls_ignore_flush_outcome:
  "fst (matrixorbitalfb_write buf count ppos (w\<lparr>i2c_send_rets := s, kzalloc_rets := k\<rparr>)) =
     fst (matrixorbitalfb_write buf count ppos w)
   \<and> fst (snd (matrixorbitalfb_write buf count ppos (w\<lparr>i2c_send_rets := s, kzalloc_rets := k\<rparr>))) =
     fst (snd (matrixorbitalfb_write buf count ppos w))
   \<and> screen_base (snd (snd (matrixorbitalfb_write buf count ppos (w\<lparr>i2c_send_rets := s, kzalloc_rets := k\<rparr>)))) =
     screen_base (snd (snd (matrixorbitalfb_write buf count ppos w)))
   \<and> screen_base (matrixorbitalfb_fillrect f (w\<lparr>i2c_send_rets := s, kzalloc_rets := k\<rparr>)) = f (screen_base w)
   \<and> screen_base (matrixorbitalfb_copyarea f (w\<lparr>i2c_send_rets := s, kzalloc_rets := k\<rparr>)) = f (screen_base w)
   \<and> screen_base (matrixorbitalfb_imageblit f (w\<lparr>i2c_send_rets := s, kzalloc_rets := k\<rparr>)) = f (screen_base w)"
proof -
  have "fst (snd (matrixorbitalfb_write buf count ppos (w\<lparr>i2c_send_rets := s, kzalloc_rets := k\<rparr>))) =
     fst (snd (matrixorbitalfb_write buf count ppos w))"
    by (simp add: matrixorbitalfb_write_def Let_def case_prod_beta copy_from_user_def)
  then show ?thesis
    by (simp add: fb_write_fst fb_write_screen_base matrixorbitalfb_fillrect_def
        matrixorbitalfb_copyarea_def matrixorbitalfb_imageblit_def update_display_fields Let_def)
qed

text \<open>
  Every send fails with the errno 5: the write of one byte still returns 1, and the
  failure is only in the kernel log.
\<close>

theorem drawing_calls_ignore_flush_outcome_witness:
  "fst (matrixorbitalfb_write [0xFF] 1 0 (blank_panel\<lparr>i2c_send_rets := sconst (- 5), kzalloc_rets := sconst True\<rparr>)) = Inr 1
   \<and> klog (snd (snd (matrixorbitalfb_write [0xFF] 1 0
         (blank_panel\<lparr>i2c_send_rets := sconst (- 5), kzalloc_rets := sconst True\<rparr>)))) = [Send_failed]"
proof -
  have "fst (matrixorbitalfb_write [0xFF] 1 0 blank_panel) = Inr 1"
    by (simp add: fb_write_fst blank_panel_def)
  moreover have "klog (snd (snd (matrixorbitalfb_write [0xFF] 1 0
         (blank_panel\<lparr>i2c_send_rets := sconst (- 5), kzalloc_rets := sconst True\<rparr>)))) = [Send_failed]"
    by (simp add: matrixorbitalfb_write_def Let_def case_prod_beta copy_from_user_def
        matrixorbitalfb_update_display_def kzalloc_def channel_defs blank_panel_def)
  ultimately show ?thesis
    using drawing_calls_ignore_flush_outcome [where buf = "[0xFF]" and count = 1 and ppos = 0
        and w = blank_panel and s = "sconst (- 5)" and k = "sconst True"]
    by simp
qed

lemma update_display_data_update_display:
  "update_display_data (matrixorbitalfb_update_display w) = update_display_data w"
  by (rule update_display_data_cong) (simp_all add: update_display_fields)

lemma fb_write_flush:
  assumes "fst (matrixorbitalfb_write buf count ppos w) = Inr n"
  shows "\<exists>sb. snd (snd (matrixorbitalfb_write buf count ppos w)) =
     matrixorbitalfb_update_display (w\<lparr>screen_base := sb\<rparr>)"
  using assms
  by (auto simp add: matrixorbitalfb_write_def Let_def case_prod_beta copy_from_user_def
      split: if_splits)

lemma fb_write_no_flush:
  assumes "fst (matrixorbitalfb_write buf count ppos w) = Inl e"
  shows "wire (snd (snd (matrixorbitalfb_write buf count ppos w))) = wire w"
    and "kzalloc_rets (snd (snd (matrixorbitalfb_write buf count ppos w))) = kzalloc_rets w"
  using assms
  by (simp_all add: matrixorbitalfb_write_def Let_def case_prod_beta copy_from_user_def
      split: if_splits)

lemma ops_smem_len: "smem_len (matrixorbitalfb_ops c w) = smem_len w"
  by (cases c)
    (simp_all add: fb_write_smem_len matrixorbitalfb_fillrect_def matrixorbitalfb_copyarea_def
      matrixorbitalfb_imageblit_def update_display_fields)

lemma fb_call_flushes_cong:
  "smem_len w' = smem_len w \<Longrightarrow> fb_call_flushes c w' = fb_call_flushes c w"
  by (cases c) (simp_all add: fb_write_fst)

lemma ops_wire:
  "wire (matrixorbitalfb_ops c w) =
     (if fb_call_flushes c w \<and> shd (kzalloc_rets w)
      then wire w @ [I2C_send (update_display_data (matrixorbitalfb_ops c w))]
      else wire w)"
proof (cases c)
  case (Fb_write buf count ppos)
  show ?thesis
  proof (cases "fst (matrixorbitalfb_write buf count ppos w)")
    case (Inl e)
    then show ?thesis using Fb_write by (simp add: fb_write_no_flush)
  next
    case (Inr n)
    obtain sb where "snd (snd (matrixorbitalfb_write buf count ppos w)) =
        matrixorbitalfb_update_display (w\<lparr>screen_base := sb\<rparr>)"
      using fb_write_flush [OF Inr] by blast
    then show ?thesis
      using Inr Fb_write
      by (simp add: wire_update_display update_display_data_update_display)
  qed
qed (simp_all add: matrixorbitalfb_fillrect_def matrixorbitalfb_copyarea_def
      matrixorbitalfb_imageblit_def wire_update_display update_display_data_update_display)

lemma ops_kzalloc_rets:
  "kzalloc_rets w = sconst True \<Longrightarrow> kzalloc_rets (matrixorbitalfb_ops c w) = sconst True"
proof (cases c)
  case (Fb_write buf count ppos)
  assume k: "kzalloc_rets w = sconst True"
  show ?thesis
  proof (cases "fst (matrixorbitalfb_write buf count ppos w)")
    case (Inl e)
    then show ?thesis using Fb_write k by (simp add: fb_write_no_flush)
  next
    case (Inr n)
    obtain sb where "snd (snd (matrixorbitalfb_write buf count ppos w)) =
        matrixorbitalfb_update_display (w\<lparr>screen_base := sb\<rparr>)"
      using fb_write_flush [OF Inr] by blast
    then show ?thesis using Fb_write k by (simp add: update_display_fields)
  qed
qed (simp_all add: matrixorbitalfb_fillrect_def matrixorbitalfb_copyarea_def
      matrixorbitalfb_imageblit_def update_display_fields)

lemma fb_calls_flush_count:
  "kzalloc_rets w = sconst True \<Longrightarrow>
   length (sent_frames (wire (fb_calls cs w))) =
     length (sent_frames (wire w)) + length (filter (\<lambda>c. fb_call_flushes c w) cs)"
proof (induction cs arbitrary: w)
  case Nil
  then show ?case by simp
next
  case (Cons c cs)
  let ?w1 = "matrixorbitalfb_ops c w"
  have k: "kzalloc_rets ?w1 = sconst True"
    using Cons.prems by (rule ops_kzalloc_rets)
  have f: "\<And>c'. fb_call_flushes c' ?w1 = fb_call_flushes c' w"
    by (rule fb_call_flushes_cong) (rule ops_smem_len)
  have "length (sent_frames (wire ?w1)) =
      length (sent_frames (wire w)) + (if fb_call_flushes c w then 1 else 0)"
    using Cons.prems by (simp add: ops_wire sent_frames_append)
  then show ?case
    using Cons.IH [OF k] by (simp add: f)
qed

lemma ops_geometry:
  "width (matrixorbitalfb_ops c w) = width w"
  "height (matrixorbitalfb_ops c w) = height w"
  by (cases c; simp add: matrixorbitalfb_write_def Let_def case_prod_beta copy_from_user_def
      matrixorbitalfb_fillrect_def matrixorbitalfb_copyarea_def
      matrixorbitalfb_imageblit_def update_display_fields)+

text \<open>
  C1. Every rectangle fill, area copy, image composition and every raw write that is not
  rejected flushes once, inside the call. So a sequence of drawing calls makes as many
  flushes as it has such calls, not one: the number of buffers handed to
  \<open>i2c_master_send\<close> grows by the number of calls that reach their flush. The buffer of
  each flush is the frame of the video memory as that call left it, for the 192 by 64
  panel the six header bytes followed by all 1536 bytes, bit-reversed. This is for a
  kernel where \<open>kzalloc\<close> always returns memory.
\<close>

theorem drawing_calls_flush_each:
  assumes "kzalloc_rets w = sconst True"
  shows "length (sent_frames (wire (fb_calls cs w))) =
       length (sent_frames (wire w)) + length (filter (\<lambda>c. fb_call_flushes c w) cs)
     \<and> (fb_call_flushes c w \<longrightarrow>
          wire (matrixorbitalfb_ops c w) =
            wire w @ [I2C_send (update_display_data (matrixorbitalfb_ops c w))])
     \<and> (width w = 192 \<and> height w = 64 \<and> length (screen_base (matrixorbitalfb_ops c w)) = 1536 \<longrightarrow>
          update_display_data (matrixorbitalfb_ops c w) =
            [0xFE, 0x64, 0, 0, 192, 64] @
            map reverse_bits_in_byte (screen_base (matrixorbitalfb_ops c w)))"
proof (intro conjI impI)
  show "length (sent_frames (wire (fb_calls cs w))) =
       length (sent_frames (wire w)) + length (filter (\<lambda>c. fb_call_flushes c w) cs)"
    using assms by (rule fb_calls_flush_count)
next
  assume "fb_call_flushes c w"
  moreover have "shd (kzalloc_rets w)" using assms by simp
  ultimately show "wire (matrixorbitalfb_ops c w) =
      wire w @ [I2C_send (update_display_data (matrixorbitalfb_ops c w))]"
    by (simp add: ops_wire)
next
  let ?w' = "matrixorbitalfb_ops c w"
  assume g: "width w = 192 \<and> height w = 64 \<and> length (screen_base ?w') = 1536"
  then have "width ?w' = 192" "height ?w' = 64" by (simp_all add: ops_geometry)
  then show "update_display_data ?w' =
      [0xFE, 0x64, 0, 0, 192, 64] @ map reverse_bits_in_byte (screen_base ?w')"
    using g update_display_data_eq [of ?w'] by simp
qed

text \<open>A fill, an accepted write, a rejected write and a copy: three flushes.\<close>

theorem drawing_calls_flush_each_witness:
  "length (sent_frames (wire (fb_calls
      [Fb_fillrect set_first_byte, Fb_write [1] 1 0, Fb_write [1] 1 2000, Fb_copyarea set_first_byte]
      blank_panel))) = 3"
  using drawing_calls_flush_each [of blank_panel
      "[Fb_fillrect set_first_byte, Fb_write [1] 1 0, Fb_write [1] 1 2000, Fb_copyarea set_first_byte]"
      "Fb_fillrect set_first_byte"]
  by (simp add: fb_write_fst blank_panel_def)

text \<open>Two rectangle fills one after the other make two flushes.\<close>

theorem two_fills_two_flushes_counterexample:
  "length (sent_frames (wire (fb_calls
      [Fb_fillrect set_first_byte, Fb_fillrect set_first_byte] blank_panel))) = 2"
proof -
  have "kzalloc_rets blank_panel = sconst True" by (simp add: blank_panel_def)
  then have "length (sent_frames (wire (fb_calls
      [Fb_fillrect set_first_byte, Fb_fillrect set_first_byte] blank_panel))) =
      length (sent_frames (wire blank_panel)) +
      length (filter (\<lambda>c. fb_call_flushes c blank_panel)
        [Fb_fillrect set_first_byte, Fb_fillrect set_first_byte])"
    by (rule fb_calls_flush_count)
  also have "\<dots> = 2" by (simp add: blank_panel_def)
  finally show ?thesis .
qed

end
